theory Spec2Isabelle
  imports Main "HOL-Library.List_Lexorder" "HOL-Library.Char_ord" "HOL-Library.Monad_Syntax"
begin

section \<open>Data model of the food journal\<close>

text \<open>
  The journal is one React component, \<open>App\<close>, over the TypeScript interfaces
  \<open>FoodEntry\<close>, \<open>MiscEntry\<close>, \<open>ActivityEntry\<close> and \<open>DailyLog\<close>. Each interface is a
  record here, with the field names of the source. A JavaScript \<open>number\<close> is an \<open>int\<close>:
  the component only copies numbers and compares them, and the one addition it performs is
  \<open>i + 1\<close> on an array index. A JavaScript string is a \<open>string\<close>; the component only tests
  strings for emptiness and equality and orders date keys.
\<close>

text \<open>A value of type \<open>any\<close> is a parsed JSON value. \<open>JNum n\<close> is the integer \<open>n\<close>; \<open>JFrac m k\<close>
  is a number that is not an integer, \<open>m\<close> divided by the \<open>k\<close>-th power of ten.\<close>

datatype any =
    JNull
  | JBool bool
  | JNum int
  | JFrac int nat
  | JStr string
  | JArr "any list"
  | JObj "(string \<times> any) list"

record ActivityEntry =
  id :: string
  type :: string
  duration :: string

record FoodEntry =
  id :: string
  source :: string
  time :: string
  serving :: string
  calories :: int
  hungerBefore :: int
  hungerAfter :: int

text \<open>\<open>MiscEntry\<close> declares the same seven fields as \<open>FoodEntry\<close>; TypeScript's structural
  typing makes the two interfaces one type.\<close>

type_synonym MiscEntry = FoodEntry

text \<open>\<open>supplements?: any[]\<close> is the one optional field: \<open>None\<close> is the absent property.\<close>

record DailyLog =
  date :: string
  proteinGoal :: string
  totalProteinCalories :: int
  ketosis :: bool
  followedPlan :: bool
  "notes" :: string
  waterIntake :: int
  foodEntries :: "FoodEntry list"
  miscEntries :: "MiscEntry list"
  fatEntries :: "string list"
  vegetableEntries :: "string list"
  activities :: "ActivityEntry list"
  supplements :: "any list option"

section \<open>Date utilities and the record factory\<close>

text \<open>The part of a JavaScript \<open>Date\<close> that the component reads, in local time:
  \<open>getMonth\<close> is zero-based, as in JavaScript.\<close>

record Date =
  getFullYear :: nat
  getMonth :: nat
  getDate :: nat
  getHours :: nat
  getMinutes :: nat

definition digit :: "nat \<Rightarrow> char" where
  "digit n = ''0123456789'' ! n"

text \<open>\<open>String(n)\<close> for a non-negative integer: its decimal digits.\<close>

fun String_of :: "nat \<Rightarrow> string" where
  "String_of n = (if n < 10 then [digit n] else String_of (n div 10) @ [digit (n mod 10)])"

declare String_of.simps [simp del]

text \<open>\<open>s.padStart(n, c)\<close> for a one-character filler.\<close>

definition padStart :: "nat \<Rightarrow> char \<Rightarrow> string \<Rightarrow> string" where
  "padStart n c s = replicate (n - length s) c @ s"

definition getLocalDateString :: "Date \<Rightarrow> string" where
  "getLocalDateString d =
     (let year = getFullYear d;
          month = padStart 2 CHR ''0'' (String_of (getMonth d + 1));
          day = padStart 2 CHR ''0'' (String_of (getDate d))
      in String_of year @ ''-'' @ month @ ''-'' @ day)"

text \<open>\<open>toLocaleTimeString('en-GB', {hour: '2-digit', minute: '2-digit'})\<close> is a platform
  function; for the locale \<open>en-GB\<close> it prints the hour of the 24-hour clock and the minute,
  two digits each, separated by a colon.\<close>

definition toLocaleTimeString_en_GB :: "Date \<Rightarrow> string" where
  "toLocaleTimeString_en_GB d =
     padStart 2 CHR ''0'' (String_of (getHours d)) @ '':'' @
     padStart 2 CHR ''0'' (String_of (getMinutes d))"

definition getInitialLog :: "string \<Rightarrow> DailyLog" where
  "getInitialLog d =
     \<lparr> date = d,
       proteinGoal = '''',
       totalProteinCalories = 0,
       ketosis = False,
       followedPlan = False,
       notes = '''',
       waterIntake = 0,
       foodEntries = [],
       miscEntries = [],
       fatEntries = ['''', ''''],
       vegetableEntries = ['''', ''''],
       activities = [],
       supplements = Some [] \<rparr>"

section \<open>Component state and the browser\<close>

datatype View = View_today | View_history

text \<open>The nine \<open>useState\<close> cells of \<open>App\<close>.\<close>

record AppState =
  isLoaded :: bool
  view :: View
  showRescue :: bool
  selectedDate :: string
  history :: "DailyLog list"
  log :: DailyLog
  pendingEntry :: FoodEntry
  pendingActivity :: ActivityEntry
  pendingMisc :: MiscEntry

text \<open>The initial values handed to \<open>useState\<close>; the argument is the clock at mount.\<close>

definition initialState :: "Date \<Rightarrow> AppState" where
  "initialState now =
     \<lparr> isLoaded = False,
       view = View_today,
       showRescue = False,
       selectedDate = getLocalDateString now,
       history = [],
       log = getInitialLog (getLocalDateString now),
       pendingEntry = \<lparr> FoodEntry.id = ''pending'', source = '''', time = '''', serving = '''',
                        calories = 0, hungerBefore = 5, hungerAfter = 5 \<rparr>,
       pendingActivity = \<lparr> ActivityEntry.id = ''pending-activity'', type = '''',
                           duration = '''' \<rparr>,
       pendingMisc = \<lparr> FoodEntry.id = ''pending-misc'', source = '''', time = '''',
                       serving = '''', calories = 0, hungerBefore = 5, hungerAfter = 5 \<rparr> \<rparr>"

text \<open>
  What the component touches outside its own state: \<open>localStorage\<close>, a store of strings
  under string keys (\<open>getItem\<close> returns \<open>null\<close>, here \<open>None\<close>, for a key never written), and
  the console, kept as the list of messages printed so far. A write that exceeds the
  storage quota is outside the model: the store is unbounded.
\<close>

datatype level = Log | Warn | Error

record browser =
  localStorage :: "string \<Rightarrow> string option"
  console :: "(level \<times> string) list"

definition getItem :: "browser \<Rightarrow> string \<Rightarrow> string option" where
  "getItem w k = localStorage w k"

definition setItem :: "string \<Rightarrow> string \<Rightarrow> browser \<Rightarrow> browser" where
  "setItem k v w = w\<lparr>localStorage := (localStorage w)(k \<mapsto> v)\<rparr>"

definition print :: "level \<Rightarrow> string \<Rightarrow> browser \<Rightarrow> browser" where
  "print l msg w = w\<lparr>console := console w @ [(l, msg)]\<rparr>"

text \<open>A string in a condition: \<open>null\<close> and the empty string are falsy.\<close>

fun truthy :: "string option \<Rightarrow> bool" where
  "truthy None = False"
| "truthy (Some s) = (s \<noteq> '''')"

section \<open>Parsed values, objects and typed views\<close>

text \<open>
  \<open>JSON.parse\<close> and \<open>JSON.stringify\<close> are platform functions and enter every operation
  below as parameters. \<open>JSON.parse\<close> returns a value of \<open>any\<close> or throws; an exception is a
  value of \<open>exn\<close>. A property read on \<open>null\<close> and a call of a method that a value does not
  have throw a \<open>TypeError\<close>.
\<close>

datatype exn = SyntaxError | TypeError

text \<open>
  \<open>v.p\<close> for a parsed value \<open>v\<close>: \<open>None\<close> is \<open>undefined\<close>. An object is the list of its
  properties; were a name listed twice, the first entry counts. The component reads the
  property \<open>date\<close>, which no number, string, boolean or array has.
\<close>

fun read_prop :: "any \<Rightarrow> string \<Rightarrow> exn + any option" where
  "read_prop JNull p = Inl TypeError"
| "read_prop (JObj kvs) p = Inr (map_of kvs p)"
| "read_prop v p = Inr None"

text \<open>The own properties that a spread copies. An array and a string have indexed ones;
  the component spreads a parsed value only after it has read a \<open>date\<close> from it, so only an
  object is ever spread.\<close>

fun own_properties :: "any \<Rightarrow> (string \<times> any) list" where
  "own_properties (JObj kvs) = kvs"
| "own_properties v = []"

text \<open>\<open>{ ...target, ...src }\<close>: the properties of \<open>target\<close> in their order, each with the value
  that \<open>src\<close> has under the same name if it has one, then the properties of \<open>src\<close> under
  names that \<open>target\<close> does not have.\<close>

definition spread :: "(string \<times> any) list \<Rightarrow> (string \<times> any) list \<Rightarrow> (string \<times> any) list" where
  "spread target src =
     map (\<lambda>(k, v). (k, case map_of src k of Some v' \<Rightarrow> v' | None \<Rightarrow> v)) target @
     filter (\<lambda>(k, v). k \<notin> fst ` set target) src"

text \<open>\<open>xs.find(h => h.date === today)\<close> on the elements of an array: the first element
  whose \<open>date\<close> is the string \<open>today\<close>; the callback throws on a \<open>null\<close> element that the
  search reaches.\<close>

fun find_today :: "string \<Rightarrow> any list \<Rightarrow> exn + any option" where
  "find_today today [] = Inr None"
| "find_today today (h # hs) =
     (case read_prop h ''date'' of
        Inl e \<Rightarrow> Inl e
      | Inr d \<Rightarrow> if d = Some (JStr today) then Inr (Some h) else find_today today hs)"

text \<open>\<open>v.find(h => h.date === today)\<close> on a parsed value: only an array has the method.\<close>

fun Array_find_today :: "any \<Rightarrow> string \<Rightarrow> exn + any option" where
  "Array_find_today (JArr hs) today = find_today today hs"
| "Array_find_today v today = Inl TypeError"

subsection \<open>Typed records as objects\<close>

text \<open>A value of an interface is the object with the properties that the interface
  declares; an absent optional property is left out.\<close>

definition FoodEntry_object :: "FoodEntry \<Rightarrow> any" where
  "FoodEntry_object e =
     JObj [(''id'', JStr (FoodEntry.id e)), (''source'', JStr (source e)),
           (''time'', JStr (time e)), (''serving'', JStr (serving e)),
           (''calories'', JNum (calories e)), (''hungerBefore'', JNum (hungerBefore e)),
           (''hungerAfter'', JNum (hungerAfter e))]"

definition ActivityEntry_object :: "ActivityEntry \<Rightarrow> any" where
  "ActivityEntry_object a =
     JObj [(''id'', JStr (ActivityEntry.id a)), (''type'', JStr (type a)),
           (''duration'', JStr (duration a))]"

definition DailyLog_properties :: "DailyLog \<Rightarrow> (string \<times> any) list" where
  "DailyLog_properties r =
     [(''date'', JStr (date r)),
      (''proteinGoal'', JStr (proteinGoal r)),
      (''totalProteinCalories'', JNum (totalProteinCalories r)),
      (''ketosis'', JBool (ketosis r)),
      (''followedPlan'', JBool (followedPlan r)),
      (''notes'', JStr (notes r)),
      (''waterIntake'', JNum (waterIntake r)),
      (''foodEntries'', JArr (map FoodEntry_object (foodEntries r))),
      (''miscEntries'', JArr (map FoodEntry_object (miscEntries r))),
      (''fatEntries'', JArr (map JStr (fatEntries r))),
      (''vegetableEntries'', JArr (map JStr (vegetableEntries r))),
      (''activities'', JArr (map ActivityEntry_object (activities r)))]
     @ (case supplements r of None \<Rightarrow> [] | Some s \<Rightarrow> [(''supplements'', JArr s)])"

definition DailyLog_object :: "DailyLog \<Rightarrow> any" where
  "DailyLog_object r = JObj (DailyLog_properties r)"

text \<open>
  The other direction: a parsed value read at a TypeScript type, \<open>None\<close> when it is not of
  that type. The component never checks; the state cells, the handlers and the other
  effects are typed, and a value that is not of the declared type leaves the typed model.
\<close>

fun as_string :: "any \<Rightarrow> string option" where
  "as_string (JStr s) = Some s"
| "as_string v = None"

fun as_number :: "any \<Rightarrow> int option" where
  "as_number (JNum n) = Some n"
| "as_number v = None"

fun as_boolean :: "any \<Rightarrow> bool option" where
  "as_boolean (JBool b) = Some b"
| "as_boolean v = None"

fun as_array :: "(any \<Rightarrow> 'a option) \<Rightarrow> any \<Rightarrow> 'a list option" where
  "as_array f (JArr xs) = those (map f xs)"
| "as_array f v = None"

definition required :: "(string \<times> any) list \<Rightarrow> string \<Rightarrow> (any \<Rightarrow> 'a option) \<Rightarrow> 'a option" where
  "required kvs k f = Option.bind (map_of kvs k) f"

definition optional :: "(string \<times> any) list \<Rightarrow> string \<Rightarrow> (any \<Rightarrow> 'a option) \<Rightarrow> 'a option option" where
  "optional kvs k f = (case map_of kvs k of None \<Rightarrow> Some None | Some v \<Rightarrow> map_option Some (f v))"

definition as_FoodEntry :: "any \<Rightarrow> FoodEntry option" where
  "as_FoodEntry v =
     (case v of
        JObj kvs \<Rightarrow>
          do {
            i \<leftarrow> required kvs ''id'' as_string;
            s \<leftarrow> required kvs ''source'' as_string;
            t \<leftarrow> required kvs ''time'' as_string;
            sv \<leftarrow> required kvs ''serving'' as_string;
            c \<leftarrow> required kvs ''calories'' as_number;
            hb \<leftarrow> required kvs ''hungerBefore'' as_number;
            ha \<leftarrow> required kvs ''hungerAfter'' as_number;
            Some \<lparr> FoodEntry.id = i, source = s, time = t, serving = sv, calories = c,
                   hungerBefore = hb, hungerAfter = ha \<rparr>
          }
      | _ \<Rightarrow> None)"

definition as_ActivityEntry :: "any \<Rightarrow> ActivityEntry option" where
  "as_ActivityEntry v =
     (case v of
        JObj kvs \<Rightarrow>
          do {
            i \<leftarrow> required kvs ''id'' as_string;
            t \<leftarrow> required kvs ''type'' as_string;
            d \<leftarrow> required kvs ''duration'' as_string;
            Some \<lparr> ActivityEntry.id = i, type = t, duration = d \<rparr>
          }
      | _ \<Rightarrow> None)"

definition as_DailyLog :: "any \<Rightarrow> DailyLog option" where
  "as_DailyLog v =
     (case v of
        JObj kvs \<Rightarrow>
          do {
            d \<leftarrow> required kvs ''date'' as_string;
            pg \<leftarrow> required kvs ''proteinGoal'' as_string;
            tpc \<leftarrow> required kvs ''totalProteinCalories'' as_number;
            k \<leftarrow> required kvs ''ketosis'' as_boolean;
            fp \<leftarrow> required kvs ''followedPlan'' as_boolean;
            n \<leftarrow> required kvs ''notes'' as_string;
            wi \<leftarrow> required kvs ''waterIntake'' as_number;
            fe \<leftarrow> required kvs ''foodEntries'' (as_array as_FoodEntry);
            me \<leftarrow> required kvs ''miscEntries'' (as_array as_FoodEntry);
            fat \<leftarrow> required kvs ''fatEntries'' (as_array as_string);
            veg \<leftarrow> required kvs ''vegetableEntries'' (as_array as_string);
            act \<leftarrow> required kvs ''activities'' (as_array as_ActivityEntry);
            sup \<leftarrow> optional kvs ''supplements'' (as_array Some);
            Some \<lparr> date = d, proteinGoal = pg, totalProteinCalories = tpc, ketosis = k,
                   followedPlan = fp, notes = n, waterIntake = wi, foodEntries = fe,
                   miscEntries = me, fatEntries = fat, vegetableEntries = veg,
                   activities = act, supplements = sup \<rparr>
          }
      | _ \<Rightarrow> None)"

section \<open>Sorting with a comparator\<close>

text \<open>
  \<open>Array.prototype.sort\<close> with a comparator is a stable sort: an element goes before another
  when the comparator is negative, and elements that compare as equal keep their order.
  Insertion from the right computes that arrangement.
\<close>

fun insert_by :: "('a \<Rightarrow> 'a \<Rightarrow> int) \<Rightarrow> 'a \<Rightarrow> 'a list \<Rightarrow> 'a list" where
  "insert_by cmp x [] = [x]"
| "insert_by cmp x (y # ys) =
     (if cmp x y \<le> 0 then x # y # ys else y # insert_by cmp x ys)"

definition Array_sort :: "('a \<Rightarrow> 'a \<Rightarrow> int) \<Rightarrow> 'a list \<Rightarrow> 'a list" where
  "Array_sort cmp xs = foldr (insert_by cmp) xs []"

section \<open>The effects of the component\<close>

subsection \<open>Initial load\<close>

text \<open>
  The effect calls each of \<open>setHistory\<close>, \<open>setLog\<close> and \<open>setIsLoaded\<close> at most once. Its result
  here is the argument of each call, \<open>None\<close> for a setter that was not called: the values
  are parsed values, of any shape.
\<close>

record setter_calls =
  setHistory :: "any option"
  setLog :: "any option"
  setIsLoaded :: "bool option"

definition no_calls :: setter_calls where
  "no_calls = \<lparr> setHistory = None, setLog = None, setIsLoaded = None \<rparr>"

text \<open>
  The body of the \<open>try\<close> block. It returns the exception thrown, if any, and the calls made
  until then: \<open>setHistory\<close> has already been called when a later statement throws. A slot
  is parsed only when its text is truthy, so \<open>the\<close> is applied to a \<open>Some\<close> only. The element
  that \<open>find\<close> returns has a \<open>date\<close>, so it is an object and truthy. The confirmation
  dialog that the effect schedules one second later reads and writes nothing and is left
  out.
\<close>

definition initialLoad_try ::
  "(string \<Rightarrow> exn + any) \<Rightarrow> Date \<Rightarrow> browser \<Rightarrow> exn option \<times> setter_calls" where
  "initialLoad_try JSON_parse now w =
     (let savedHistory = getItem w ''food-journal-history'' in
      case (if truthy savedHistory
            then (case JSON_parse (the savedHistory) of
                    Inl e \<Rightarrow> Inl e
                  | Inr parsedHistory \<Rightarrow>
                      Inr (parsedHistory, no_calls\<lparr>setHistory := Some parsedHistory\<rparr>))
            else Inr (JArr [], no_calls)) of
        Inl e \<Rightarrow> (Some e, no_calls)
      | Inr (parsedHistory, c1) \<Rightarrow>
          (let today = getLocalDateString now;
               savedLog = getItem w ''food-journal-log'';
               initialLog = DailyLog_properties (getInitialLog today)
           in case (if truthy savedLog
                    then (case JSON_parse (the savedLog) of
                            Inl e \<Rightarrow> Inl e
                          | Inr parsed \<Rightarrow>
                              (case read_prop parsed ''date'' of
                                 Inl e \<Rightarrow> Inl e
                               | Inr d \<Rightarrow>
                                   Inr (if d = Some (JStr today)
                                        then spread initialLog (own_properties parsed)
                                        else initialLog)))
                    else Inr initialLog) of
                Inl e \<Rightarrow> (Some e, c1)
              | Inr initialLog' \<Rightarrow>
                  (case Array_find_today parsedHistory today of
                     Inl e \<Rightarrow> (Some e, c1)
                   | Inr (Some historyEntry) \<Rightarrow>
                       (None, c1\<lparr>setLog := Some historyEntry, setIsLoaded := Some True\<rparr>)
                   | Inr None \<Rightarrow>
                       (None, c1\<lparr>setLog := Some (JObj initialLog'),
                                  setIsLoaded := Some True\<rparr>))))"

text \<open>The whole effect, \<open>try\<close> and \<open>catch\<close>. The first component of the result is the
  exception that leaves the effect.\<close>

definition initialLoad ::
  "(string \<Rightarrow> exn + any) \<Rightarrow> Date \<Rightarrow> browser \<Rightarrow> exn option \<times> setter_calls \<times> browser" where
  "initialLoad JSON_parse now w =
     (let w1 = print Log ''App: Initializing v3.0...'' w in
      case initialLoad_try JSON_parse now w1 of
        (None, c) \<Rightarrow> (None, c, w1)
      | (Some err, c) \<Rightarrow>
          (None, c\<lparr>setIsLoaded := Some True\<rparr>, print Error ''Storage Recovery failed'' w1))"

text \<open>The calls applied to the typed state cells; \<open>None\<close> when a value set is not of the
  type of its cell.\<close>

definition apply_calls :: "setter_calls \<Rightarrow> AppState \<Rightarrow> AppState option" where
  "apply_calls c st =
     do {
       h \<leftarrow> (case setHistory c of None \<Rightarrow> Some (history st)
                                | Some v \<Rightarrow> as_array as_DailyLog v);
       l \<leftarrow> (case setLog c of None \<Rightarrow> Some (log st) | Some v \<Rightarrow> as_DailyLog v);
       Some (st\<lparr> history := h, log := l,
                 isLoaded := (case setIsLoaded c of None \<Rightarrow> isLoaded st | Some b \<Rightarrow> b) \<rparr>)
     }"

subsection \<open>Save current log to history\<close>

text \<open>\<open>localeCompare\<close> is a platform function and a parameter; \<open>now\<close> is the clock when the
  effect runs.\<close>

definition saveLogToHistory ::
  "(string \<Rightarrow> string \<Rightarrow> int) \<Rightarrow> (DailyLog \<Rightarrow> string) \<Rightarrow> Date \<Rightarrow>
   AppState \<times> browser \<Rightarrow> AppState \<times> browser" where
  "saveLogToHistory localeCompare JSON_stringify_log now = (\<lambda>(st, w).
     if \<not> isLoaded st then (st, w)
     else
       let prev = history st;
           otherDays = filter (\<lambda>h. date h \<noteq> date (log st)) prev;
           newHistory = Array_sort (\<lambda>a b. localeCompare (date b) (date a)) (log st # otherDays)
       in (st\<lparr>history := newHistory\<rparr>,
           if date (log st) = getLocalDateString now
           then setItem ''food-journal-log'' (JSON_stringify_log (log st)) w
           else w))"

subsection \<open>Persist history with the safety guard\<close>

definition persistHistory ::
  "(DailyLog list \<Rightarrow> string) \<Rightarrow> AppState \<times> browser \<Rightarrow> AppState \<times> browser" where
  "persistHistory JSON_stringify_history = (\<lambda>(st, w).
     if \<not> isLoaded st then (st, w)
     else if length (history st) = 0 \<and>
             (let rawInStore = getItem w ''food-journal-history''
              in truthy rawInStore \<and> rawInStore \<noteq> Some ''[]'')
     then (st, print Warn
            ''Journal: Blocked attempt to overwrite storage with empty state. History is SAFE.'' w)
     else (st, setItem ''food-journal-history'' (JSON_stringify_history (history st)) w))"

subsection \<open>Date selection\<close>

definition handleDateSelection :: "AppState \<Rightarrow> AppState" where
  "handleDateSelection st =
     (if \<not> isLoaded st then st
      else case find (\<lambda>h. date h = selectedDate st) (history st) of
             Some entryForDate \<Rightarrow> st\<lparr>log := entryForDate\<rparr>
           | None \<Rightarrow> st\<lparr>log := getInitialLog (selectedDate st)\<rparr>)"

subsection \<open>A mutation and the effects it triggers\<close>

text \<open>
  A mutation replaces \<open>log\<close>. React then runs the effects that depend on it: the save effect,
  and, after the render that its \<open>setHistory\<close> causes, the persist effect. Each mutation
  comes with the clock at the time of its effects.
\<close>

definition mutate ::
  "(string \<Rightarrow> string \<Rightarrow> int) \<Rightarrow> (DailyLog \<Rightarrow> string) \<Rightarrow> (DailyLog list \<Rightarrow> string) \<Rightarrow>
   DailyLog \<times> Date \<Rightarrow> AppState \<times> browser \<Rightarrow> AppState \<times> browser" where
  "mutate localeCompare JSON_stringify_log JSON_stringify_history = (\<lambda>(r, now) (st, w).
     persistHistory JSON_stringify_history
       (saveLogToHistory localeCompare JSON_stringify_log now (st\<lparr>log := r\<rparr>, w)))"

definition mutations ::
  "(string \<Rightarrow> string \<Rightarrow> int) \<Rightarrow> (DailyLog \<Rightarrow> string) \<Rightarrow> (DailyLog list \<Rightarrow> string) \<Rightarrow>
   (DailyLog \<times> Date) list \<Rightarrow> AppState \<times> browser \<Rightarrow> AppState \<times> browser" where
  "mutations localeCompare JSON_stringify_log JSON_stringify_history ms s =
     fold (mutate localeCompare JSON_stringify_log JSON_stringify_history) ms s"

subsection \<open>The renders of a startup\<close>

text \<open>
  After a render React runs the effects whose dependencies have changed, in the order of
  their declaration, each on the state of that render; what they set shows in the next
  render. \<open>commit\<close> is one such round of the save, persist and date selection effects, the
  three flags telling which of them run.
\<close>

definition commit ::
  "(string \<Rightarrow> string \<Rightarrow> int) \<Rightarrow> (DailyLog \<Rightarrow> string) \<Rightarrow> (DailyLog list \<Rightarrow> string) \<Rightarrow> Date \<Rightarrow>
   bool \<Rightarrow> bool \<Rightarrow> bool \<Rightarrow> AppState \<times> browser \<Rightarrow> AppState \<times> browser" where
  "commit localeCompare JSON_stringify_log JSON_stringify_history now
          runSave runPersist runSelect = (\<lambda>(st, w).
     let (st2, w2) = (if runSave
                      then saveLogToHistory localeCompare JSON_stringify_log now (st, w)
                      else (st, w));
         w3 = (if runPersist then snd (persistHistory JSON_stringify_history (st, w2)) else w2);
         st4 = (if runSelect then handleDateSelection st else st)
     in (st\<lparr>history := history st2, log := log st4\<rparr>, w3))"

text \<open>
  Startup: the component is mounted and the initial load runs; in the render that
  follows, \<open>isLoaded\<close> has changed, and since the save, persist and date selection effects
  all list it, all three run; the record and the history they set show in the next render,
  where the save and persist effects run; the history set there shows in one more render,
  where the persist effect runs. When the date selection effect has set the very record
  that was current, React skips the save effect of the second round, which the model
  runs all the same. The result is \<open>None\<close> when the load has set a value that is not of the
  type of its cell.
\<close>

definition startup ::
  "(string \<Rightarrow> exn + any) \<Rightarrow> (string \<Rightarrow> string \<Rightarrow> int) \<Rightarrow> (DailyLog \<Rightarrow> string) \<Rightarrow>
   (DailyLog list \<Rightarrow> string) \<Rightarrow> Date \<Rightarrow> browser \<Rightarrow> (AppState \<times> browser) option" where
  "startup JSON_parse localeCompare JSON_stringify_log JSON_stringify_history now w =
     (case initialLoad JSON_parse now w of
        (e, c, w1) \<Rightarrow>
          map_option
            (\<lambda>st1.
               commit localeCompare JSON_stringify_log JSON_stringify_history now
                 False True False
                 (commit localeCompare JSON_stringify_log JSON_stringify_history now
                    True True False
                    (commit localeCompare JSON_stringify_log JSON_stringify_history now
                       True True True (st1, w1))))
            (apply_calls c (initialState now)))"

section \<open>Entry operations\<close>

text \<open>
  \<open>Math.random().toString(36).substr(2, 9)\<close> is the parameter \<open>newId\<close>; \<open>now\<close> is the clock
  read by \<open>new Date()\<close>. An updater \<open>setLog(prev => ...)\<close> is applied to the current state.
  The source reads \<open>prev.miscEntries || []\<close>; \<open>miscEntries\<close> is a declared field of
  \<open>DailyLog\<close>, an array is truthy, and the model reads the field.
\<close>

definition savePendingEntry :: "string \<Rightarrow> Date \<Rightarrow> AppState \<Rightarrow> AppState" where
  "savePendingEntry newId now st =
     (if source (pendingEntry st) = '''' then st
      else
        let newEntry = (pendingEntry st)
              \<lparr> FoodEntry.id := newId,
                time := (if time (pendingEntry st) \<noteq> '''' then time (pendingEntry st)
                         else toLocaleTimeString_en_GB now) \<rparr>
        in st\<lparr> log := (log st)\<lparr>foodEntries := newEntry # foodEntries (log st)\<rparr>,
                pendingEntry := \<lparr> FoodEntry.id = ''pending'', source = '''', time = '''',
                                  serving = '''', calories = 0, hungerBefore = 5,
                                  hungerAfter = 5 \<rparr> \<rparr>)"

definition removeFoodEntry :: "string \<Rightarrow> AppState \<Rightarrow> AppState" where
  "removeFoodEntry i st =
     st\<lparr>log := (log st)\<lparr>foodEntries := filter (\<lambda>e. FoodEntry.id e \<noteq> i) (foodEntries (log st))\<rparr>\<rparr>"

definition savePendingActivity :: "string \<Rightarrow> AppState \<Rightarrow> AppState" where
  "savePendingActivity newId st =
     (if type (pendingActivity st) = '''' then st
      else
        let newEntry = (pendingActivity st)\<lparr>ActivityEntry.id := newId\<rparr>
        in st\<lparr> log := (log st)\<lparr>activities := newEntry # activities (log st)\<rparr>,
                pendingActivity := \<lparr> ActivityEntry.id = ''pending-activity'', type = '''',
                                     duration = '''' \<rparr> \<rparr>)"

definition removeActivity :: "string \<Rightarrow> AppState \<Rightarrow> AppState" where
  "removeActivity i st =
     st\<lparr>log := (log st)\<lparr>activities := filter (\<lambda>a. ActivityEntry.id a \<noteq> i) (activities (log st))\<rparr>\<rparr>"

definition savePendingMisc :: "string \<Rightarrow> Date \<Rightarrow> AppState \<Rightarrow> AppState" where
  "savePendingMisc newId now st =
     (if source (pendingMisc st) = '''' then st
      else
        let newEntry = (pendingMisc st)
              \<lparr> FoodEntry.id := newId,
                time := (if time (pendingMisc st) \<noteq> '''' then time (pendingMisc st)
                         else toLocaleTimeString_en_GB now) \<rparr>
        in st\<lparr> log := (log st)\<lparr>miscEntries := newEntry # miscEntries (log st)\<rparr>,
                pendingMisc := \<lparr> FoodEntry.id = ''pending-misc'', source = '''', time = '''',
                                 serving = '''', calories = 0, hungerBefore = 5,
                                 hungerAfter = 5 \<rparr> \<rparr>)"

definition removeMiscEntry :: "string \<Rightarrow> AppState \<Rightarrow> AppState" where
  "removeMiscEntry i st =
     st\<lparr>log := (log st)\<lparr>miscEntries := filter (\<lambda>e. FoodEntry.id e \<noteq> i) (miscEntries (log st))\<rparr>\<rparr>"

text \<open>The click handler of water pip \<open>i\<close>, one of the eight pips \<open>0\<close> to \<open>7\<close>. The handler
  compares with the \<open>waterIntake\<close> of the rendered record, which is the current record when
  the click arrives.\<close>

definition clickWaterPip :: "nat \<Rightarrow> AppState \<Rightarrow> AppState" where
  "clickWaterPip i st =
     st\<lparr>log := (log st)\<lparr>waterIntake :=
           (if int i + 1 = waterIntake (log st) then int i else int i + 1)\<rparr>\<rparr>"

section \<open>Sample inputs\<close>

text \<open>
  Concrete values at which the theorems below are instantiated: a clock reading
  (2 January 2024, 09:05), the component state after a load that found nothing, a string
  comparator, a store built from key and text pairs, a history of three days, the text of
  a draft for 2 January with the value it parses to, and a parser that knows that text,
  the text of the three days, \<open>{}\<close> and \<open>null\<close>, and throws on every other text. The
  serialisers stand in for \<open>JSON.stringify\<close> and keep the date keys, one of them the notes
  as well; every theorem holds for any serialiser.
\<close>

abbreviation sample_clock :: Date where
  "sample_clock \<equiv>
     \<lparr> getFullYear = 2024, getMonth = 0, getDate = 2, getHours = 9, getMinutes = 5 \<rparr>"

abbreviation loaded_state :: AppState where
  "loaded_state \<equiv> (initialState sample_clock)\<lparr>isLoaded := True\<rparr>"

abbreviation compare_strings :: "string \<Rightarrow> string \<Rightarrow> int" where
  "compare_strings \<equiv> (\<lambda>a b. if a < b then - 1 else if a = b then 0 else 1)"

abbreviation sample_stringify_log :: "DailyLog \<Rightarrow> string" where
  "sample_stringify_log \<equiv> (\<lambda>r. ''log '' @ date r)"

abbreviation sample_stringify_history :: "DailyLog list \<Rightarrow> string" where
  "sample_stringify_history \<equiv> (\<lambda>h. ''history'' @ concat (map (\<lambda>r. '' '' @ date r) h))"

abbreviation sample_store :: "(string \<times> string) list \<Rightarrow> browser" where
  "sample_store kvs \<equiv> \<lparr> localStorage = map_of kvs, console = [] \<rparr>"

abbreviation sample_history :: "DailyLog list" where
  "sample_history \<equiv>
     [getInitialLog ''2024-01-03'', (getInitialLog ''2024-01-02'')\<lparr>waterIntake := 5\<rparr>,
      getInitialLog ''2024-01-01'']"

abbreviation sample_draft_text :: string where
  \<open>sample_draft_text \<equiv> ''{"date":"2024-01-02","notes":"slept well","waterIntake":3}''\<close>

abbreviation sample_draft :: any where
  "sample_draft \<equiv>
     JObj [(''date'', JStr ''2024-01-02''), (''notes'', JStr ''slept well''),
           (''waterIntake'', JNum 3)]"

abbreviation sample_parse :: "string \<Rightarrow> exn + any" where
  "sample_parse \<equiv>
     (\<lambda>s. if s = sample_draft_text then Inr sample_draft
          else if s = ''history of three days'' then Inr (JArr (map DailyLog_object sample_history))
          else if s = ''{}'' then Inr (JObj [])
          else if s = ''null'' then Inr JNull
          else Inl SyntaxError)"

abbreviation sample_stringify_notes :: "DailyLog \<Rightarrow> string" where
  "sample_stringify_notes \<equiv> (\<lambda>r. ''log '' @ date r @ '' notes='' @ notes r)"

section \<open>Auxiliary facts\<close>

subsection \<open>Clock formatting\<close>

lemma sample_today: "getLocalDateString sample_clock = ''2024-01-02''"
  by code_simp

lemma sample_time: "toLocaleTimeString_en_GB sample_clock = ''09:05''"
  by code_simp

lemma two_digits:
  assumes "n < 100"
  shows "padStart 2 CHR ''0'' (String_of n) = [digit (n div 10), digit (n mod 10)]"
proof (cases "n < 10")
  case True
  then show ?thesis
    by (simp add: String_of.simps [of n] padStart_def digit_def)
next
  case False
  with assms have "n div 10 < 10" by simp
  with False show ?thesis
    by (simp add: String_of.simps [of n] String_of.simps [of "n div 10"] padStart_def)
qed

lemma clock_format:
  assumes "getHours now < 24" and "getMinutes now < 60"
  shows "toLocaleTimeString_en_GB now =
    [digit (getHours now div 10), digit (getHours now mod 10), CHR '':'',
     digit (getMinutes now div 10), digit (getMinutes now mod 10)]"
  using assms by (simp add: toLocaleTimeString_en_GB_def two_digits)

subsection \<open>Typed records and objects\<close>

lemma those_map_Some: "those (map Some xs) = Some xs"
  by (induction xs) simp_all

lemma as_FoodEntry_object: "as_FoodEntry (FoodEntry_object e) = Some e"
  by (simp add: as_FoodEntry_def FoodEntry_object_def required_def)

lemma as_ActivityEntry_object: "as_ActivityEntry (ActivityEntry_object a) = Some a"
  by (simp add: as_ActivityEntry_def ActivityEntry_object_def required_def)

lemma those_map_comp:
  "(\<And>x. f (g x) = Some x) \<Longrightarrow> those (map (f \<circ> g) xs) = Some xs"
  by (induction xs) simp_all

lemma as_DailyLog_object: "as_DailyLog (DailyLog_object r) = Some r"
proof -
  have l: "those (map (as_FoodEntry \<circ> FoodEntry_object) (foodEntries r)) = Some (foodEntries r)"
    "those (map (as_FoodEntry \<circ> FoodEntry_object) (miscEntries r)) = Some (miscEntries r)"
    "those (map (as_string \<circ> JStr) (fatEntries r)) = Some (fatEntries r)"
    "those (map (as_string \<circ> JStr) (vegetableEntries r)) = Some (vegetableEntries r)"
    "those (map (as_ActivityEntry \<circ> ActivityEntry_object) (activities r)) = Some (activities r)"
    by (simp_all add: those_map_comp as_FoodEntry_object as_ActivityEntry_object)
  show ?thesis
    by (cases "supplements r")
       (simp_all add: as_DailyLog_def DailyLog_object_def DailyLog_properties_def required_def
          optional_def l those_map_Some)
qed

subsection \<open>Object spread\<close>

text \<open>A read of the merged object gives the value of the source under that name if it has
  one, and the value of the target otherwise.\<close>

lemma map_of_overridden:
  "map_of (map (\<lambda>(k, v). (k, case map_of src k of Some v' \<Rightarrow> v' | None \<Rightarrow> v)) target) k =
     (case map_of target k of
        None \<Rightarrow> None
      | Some v \<Rightarrow> (case map_of src k of Some v' \<Rightarrow> Some v' | None \<Rightarrow> Some v))"
  by (induction target) (auto split: option.splits)

lemma map_of_new_names:
  "map_of (filter (\<lambda>(k, v). k \<notin> S) src) k = (if k \<in> S then None else map_of src k)"
  by (induction src) auto

lemma map_of_spread:
  "map_of (spread target src) k =
     (case map_of src k of Some v \<Rightarrow> Some v | None \<Rightarrow> map_of target k)"
proof (cases "map_of target k")
  case None
  then have "k \<notin> fst ` set target" by (simp add: map_of_eq_None_iff)
  with None show ?thesis
    by (simp add: spread_def map_add_def map_of_overridden map_of_new_names
        split: option.splits)
next
  case (Some v)
  then show ?thesis
    by (simp add: spread_def map_add_def map_of_overridden split: option.splits)
qed

subsection \<open>The initial load\<close>

text \<open>What the load sets when nothing throws: the history record for today if the parsed
  history has one, else the draft spread over a fresh record when the draft's date is
  today, else the fresh record.\<close>

lemma read_prop_not_null: "p \<noteq> JNull \<Longrightarrow> \<exists>d. read_prop p k = Inr d"
  by (cases p) simp_all

lemma initialLoad_try_adopts:
  assumes H: "if truthy (localStorage w ''food-journal-history'')
              then JSON_parse (the (localStorage w ''food-journal-history'')) = Inr (JArr hs)
              else hs = []"
    and F: "find_today (getLocalDateString now) hs = Inr found"
    and D: "truthy (localStorage w ''food-journal-log'') \<longrightarrow>
            JSON_parse (the (localStorage w ''food-journal-log'')) = Inr p \<and> p \<noteq> JNull"
  shows "initialLoad_try JSON_parse now w =
     (None,
      \<lparr> setHistory = (if truthy (localStorage w ''food-journal-history'')
                       then Some (JArr hs) else None),
        setLog = Some (case found of
                         Some historyEntry \<Rightarrow> historyEntry
                       | None \<Rightarrow>
                           JObj (if truthy (localStorage w ''food-journal-log'') \<and>
                                    read_prop p ''date'' = Inr (Some (JStr (getLocalDateString now)))
                                 then spread (DailyLog_properties (getInitialLog (getLocalDateString now)))
                                        (own_properties p)
                                 else DailyLog_properties (getInitialLog (getLocalDateString now)))),
        setIsLoaded = Some True \<rparr>)"
proof (cases "truthy (localStorage w ''food-journal-log'')")
  case True
  with D obtain d where d: "read_prop p ''date'' = Inr d"
    using read_prop_not_null [of p "''date''"] by auto
  with True H F D show ?thesis
    by (cases found)
       (auto simp add: initialLoad_try_def getItem_def Let_def no_calls_def)
next
  case False
  with H F show ?thesis
    by (cases found)
       (auto simp add: initialLoad_try_def getItem_def Let_def no_calls_def)
qed


lemma try_finished:
  "fst (initialLoad_try JSON_parse now w) = None \<Longrightarrow>
     setIsLoaded (snd (initialLoad_try JSON_parse now w)) = Some True"
  by (simp add: initialLoad_try_def getItem_def Let_def no_calls_def
      split: option.split_asm sum.split_asm prod.split_asm if_split_asm)





lemma initialLoad_calls:
  "initialLoad JSON_parse now w =
     (None,
      (snd (initialLoad_try JSON_parse now (print Log ''App: Initializing v3.0...'' w)))
        \<lparr>setIsLoaded := Some True\<rparr>,
      snd (snd (initialLoad JSON_parse now w)))"
proof -
  let ?w1 = "print Log ''App: Initializing v3.0...'' w"
  obtain t c0 where b: "initialLoad_try JSON_parse now ?w1 = (t, c0)"
    by (cases "initialLoad_try JSON_parse now ?w1")
  show ?thesis
  proof (cases t)
    case None
    with b try_finished [of JSON_parse now ?w1] have "setIsLoaded c0 = Some True" by simp
    then have "c0\<lparr>setIsLoaded := Some True\<rparr> = c0" by (cases c0) simp
    with None b show ?thesis by (simp add: initialLoad_def Let_def)
  next
    case (Some x)
    with b show ?thesis by (simp add: initialLoad_def Let_def)
  qed
qed


subsection \<open>Stable sorting\<close>

lemma set_insert_by: "set (insert_by cmp x ys) = insert x (set ys)"
  by (induction ys) auto

lemma set_Array_sort: "set (Array_sort cmp xs) = set xs"
  by (induction xs) (simp_all add: Array_sort_def set_insert_by)

lemma distinct_map_insert_by:
  "distinct (map f (insert_by cmp x ys)) = (f x \<notin> f ` set ys \<and> distinct (map f ys))"
  by (induction ys) (auto simp add: set_insert_by)

lemma distinct_map_Array_sort:
  "distinct (map f (Array_sort cmp xs)) = distinct (map f xs)"
proof (induction xs)
  case Nil
  show ?case by (simp add: Array_sort_def)
next
  case (Cons x xs)
  have "Array_sort cmp (x # xs) = insert_by cmp x (Array_sort cmp xs)"
    by (simp add: Array_sort_def)
  with Cons show ?case
    by (simp add: distinct_map_insert_by set_Array_sort)
qed

text \<open>Descending order of the keys \<open>kf\<close>, for a comparator that agrees with the order of
  the keys on the elements at hand.\<close>

lemma sorted_insert_by:
  fixes kf :: "'a \<Rightarrow> string"
  assumes le: "\<And>a b. a \<in> A \<Longrightarrow> b \<in> A \<Longrightarrow> (cmp a b \<le> 0) = (kf b \<le> kf a)"
    and "x \<in> A" and "set ys \<subseteq> A"
    and "sorted_wrt (\<lambda>a b. kf b \<le> kf a) ys"
  shows "sorted_wrt (\<lambda>a b. kf b \<le> kf a) (insert_by cmp x ys)"
  using assms(3,4)
proof (induction ys)
  case Nil
  then show ?case by simp
next
  case (Cons y ys)
  have xy: "(cmp x y \<le> 0) = (kf y \<le> kf x)"
    using le [of x y] assms(2) Cons.prems(1) by simp
  show ?case
  proof (cases "cmp x y \<le> 0")
    case True
    then have "kf y \<le> kf x" by (simp add: xy)
    with Cons.prems show ?thesis using True by auto
  next
    case False
    then have "kf x \<le> kf y" using xy by auto
    with Cons show ?thesis using False by (auto simp add: set_insert_by)
  qed
qed

lemma sorted_Array_sort:
  fixes kf :: "'a \<Rightarrow> string"
  assumes le: "\<And>a b. a \<in> A \<Longrightarrow> b \<in> A \<Longrightarrow> (cmp a b \<le> 0) = (kf b \<le> kf a)"
    and "set xs \<subseteq> A"
  shows "sorted_wrt (\<lambda>a b. kf b \<le> kf a) (Array_sort cmp xs)"
  using assms(2)
proof (induction xs)
  case Nil
  show ?case by (simp add: Array_sort_def)
next
  case (Cons x xs)
  then have "sorted_wrt (\<lambda>a b. kf b \<le> kf a) (Array_sort cmp xs)" by simp
  moreover have "x \<in> A" "set (Array_sort cmp xs) \<subseteq> A"
    using Cons.prems by (simp_all add: set_Array_sort)
  ultimately have "sorted_wrt (\<lambda>a b. kf b \<le> kf a) (insert_by cmp x (Array_sort cmp xs))"
    using sorted_insert_by [of A cmp kf x "Array_sort cmp xs"] le by blast
  then show ?case by (simp add: Array_sort_def)
qed

lemma filter_key_insert_by:
  "\<forall>y \<in> set ys. f y \<noteq> k \<Longrightarrow> f x = k \<Longrightarrow>
     filter (\<lambda>h. f h = k) (insert_by cmp x ys) = [x]"
  by (induction ys) (auto simp add: filter_empty_conv)

lemma filter_key_Array_sort:
  assumes "\<forall>y \<in> set xs. f y \<noteq> f x"
  shows "filter (\<lambda>h. f h = f x) (Array_sort cmp (x # xs)) = [x]"
proof -
  have "\<forall>y \<in> set (Array_sort cmp xs). f y \<noteq> f x"
    using assms by (simp add: set_Array_sort)
  then have "filter (\<lambda>h. f h = f x) (insert_by cmp x (Array_sort cmp xs)) = [x]"
    by (simp add: filter_key_insert_by)
  then show ?thesis by (simp add: Array_sort_def)
qed

subsection \<open>One mutation and the draft slot\<close>

lemma mutate_draft:
  assumes "isLoaded st"
  shows "isLoaded (fst (mutate lc strL strH (r, now) (st, w))) \<and>
         localStorage (snd (mutate lc strL strH (r, now) (st, w))) ''food-journal-log'' =
           (if date r = getLocalDateString now then Some (strL r)
            else localStorage w ''food-journal-log'')"
  using assms
  by (simp add: mutate_def saveLogToHistory_def persistHistory_def setItem_def print_def
      getItem_def Let_def)

lemma mutations_snoc:
  "mutations lc strL strH (ms @ [m]) s = mutate lc strL strH m (mutations lc strL strH ms s)"
  by (simp add: mutations_def)

lemma mutations_isLoaded:
  "isLoaded st \<Longrightarrow> isLoaded (fst (mutations lc strL strH ms (st, w)))"
proof (induction ms rule: rev_induct)
  case Nil
  then show ?case by (simp add: mutations_def)
next
  case (snoc m ms)
  obtain r now where m: "m = (r, now)" by (cases m)
  obtain st' w' where s: "mutations lc strL strH ms (st, w) = (st', w')"
    by (cases "mutations lc strL strH ms (st, w)")
  from snoc s have "isLoaded st'" by simp
  from mutate_draft [OF this] show ?case by (simp add: mutations_snoc m s)
qed

subsection \<open>Date selection after the load\<close>

text \<open>
  The date selection effect lists \<open>isLoaded\<close> among its dependencies, so React runs it again
  in the render in which the initial load has set \<open>isLoaded\<close>. When the history holds no
  record for the selected date, it then replaces the current record, also one that the load
  derived from the draft, by a fresh one.
\<close>

lemma handleDateSelection_fresh:
  "isLoaded st \<Longrightarrow> find (\<lambda>h. date h = selectedDate st) (history st) = None \<Longrightarrow>
     log (handleDateSelection st) = getInitialLog (selectedDate st)"
  by (simp add: handleDateSelection_def)

subsection \<open>The renders of a startup\<close>

lemma commit_log:
  "log (fst (commit lc strL strH now rs rp rd (st, w))) =
     (if rd then log (handleDateSelection st) else log st)"
  by (simp add: commit_def Let_def split: prod.split)

lemma apply_calls_cells:
  assumes "apply_calls c st = Some st'"
  shows "selectedDate st' = selectedDate st"
    and "setIsLoaded c = Some b \<Longrightarrow> isLoaded st' = b"
  using assms by (auto simp add: apply_calls_def split: bind_splits option.splits)

lemma startup_adopts_fresh:
  assumes load: "initialLoad JSON_parse now w = (e, c, w1)"
    and typed: "apply_calls c (initialState now) = Some st1"
    and none: "find (\<lambda>h. date h = getLocalDateString now) (history st1) = None"
  shows "\<exists>st w'. startup JSON_parse lc strL strH now w = Some (st, w') \<and>
                 log st = getInitialLog (getLocalDateString now)"
proof -
  from load initialLoad_calls [of JSON_parse now w] have "setIsLoaded c = Some True" by auto
  with typed have l: "isLoaded st1" by (simp add: apply_calls_cells)
  from typed have s: "selectedDate st1 = getLocalDateString now"
    by (simp add: apply_calls_cells initialState_def)
  from l s none have f: "log (handleDateSelection st1) = getInitialLog (getLocalDateString now)"
    by (simp add: handleDateSelection_def)
  let ?r1 = "commit lc strL strH now True True True (st1, w1)"
  let ?r2 = "commit lc strL strH now True True False ?r1"
  let ?r3 = "commit lc strL strH now False True False ?r2"
  have "log (fst ?r1) = getInitialLog (getLocalDateString now)"
    by (simp add: commit_log f)
  then have "log (fst ?r2) = getInitialLog (getLocalDateString now)"
    using commit_log [of lc strL strH now True True False "fst ?r1" "snd ?r1"] by simp
  then have "log (fst ?r3) = getInitialLog (getLocalDateString now)"
    using commit_log [of lc strL strH now False True False "fst ?r2" "snd ?r2"] by simp
  moreover have "startup JSON_parse lc strL strH now w = Some (fst ?r3, snd ?r3)"
    by (simp add: startup_def load typed)
  ultimately show ?thesis by blast
qed

section \<open>Startup\<close>

text \<open>
  Claim C1. At startup the record adopted as the current record is to follow the precedence
  history, then draft, then factory default. The initial load does adopt the draft spread
  over a fresh record when the history has no record for today. The date selection effect
  runs in the render after the load, finds no record for the selected date, which is
  today, and sets a fresh record; the save effect of the next render writes that fresh
  record over the draft slot. With a draft for 2 January that holds notes and a water
  count, no stored history and the clock at 2 January: the load sets the merged record,
  and the startup ends with the fresh record as the current record and in the draft slot.
\<close>

theorem startup_discards_draft:
  \<open>Option.bind
     (setLog (fst (snd (initialLoad sample_parse sample_clock
        (sample_store [(''food-journal-log'', sample_draft_text)])))))
     as_DailyLog
     = Some ((getInitialLog ''2024-01-02'')\<lparr>notes := ''slept well'', waterIntake := 3\<rparr>) \<and>
   map_option (\<lambda>(st, w). log st)
     (startup sample_parse compare_strings sample_stringify_notes sample_stringify_history
        sample_clock (sample_store [(''food-journal-log'', sample_draft_text)]))
     = Some (getInitialLog ''2024-01-02'') \<and>
   map_option (\<lambda>(st, w). localStorage w ''food-journal-log'')
     (startup sample_parse compare_strings sample_stringify_notes sample_stringify_history
        sample_clock (sample_store [(''food-journal-log'', sample_draft_text)]))
     = Some (Some ''log 2024-01-02 notes='')\<close>
proof -
  let ?w = \<open>sample_store [(''food-journal-log'', sample_draft_text)]\<close>
  let ?merged = "(getInitialLog ''2024-01-02'')\<lparr>notes := ''slept well'', waterIntake := 3\<rparr>"
  have load: "initialLoad sample_parse sample_clock ?w =
       (None, \<lparr> setHistory = None, setLog = Some (DailyLog_object ?merged),
                setIsLoaded = Some True \<rparr>,
        print Log ''App: Initializing v3.0...'' ?w)"
    by (simp add: initialLoad_def initialLoad_try_def getItem_def print_def sample_today
        no_calls_def spread_def DailyLog_object_def DailyLog_properties_def getInitialLog_def
        Let_def)
  have st1: "apply_calls \<lparr> setHistory = None, setLog = Some (DailyLog_object ?merged),
                setIsLoaded = Some True \<rparr> (initialState sample_clock) =
       Some ((initialState sample_clock)\<lparr>log := ?merged, isLoaded := True\<rparr>)"
    by (simp add: apply_calls_def as_DailyLog_object initialState_def)
  have a: "Option.bind (setLog (fst (snd (initialLoad sample_parse sample_clock ?w)))) as_DailyLog
             = Some ?merged"
    unfolding load by (simp add: as_DailyLog_object)
  have s: "startup sample_parse compare_strings sample_stringify_notes sample_stringify_history
             sample_clock ?w =
           Some (commit compare_strings sample_stringify_notes sample_stringify_history
                   sample_clock False True False
                  (commit compare_strings sample_stringify_notes sample_stringify_history
                     sample_clock True True False
                    (commit compare_strings sample_stringify_notes sample_stringify_history
                       sample_clock True True True
                       ((initialState sample_clock)\<lparr>log := ?merged, isLoaded := True\<rparr>,
                        print Log ''App: Initializing v3.0...'' ?w))))"
    unfolding startup_def load by (simp add: st1)
  have b: "map_option (\<lambda>(st, w). log st)
     (startup sample_parse compare_strings sample_stringify_notes sample_stringify_history
        sample_clock ?w) = Some (getInitialLog ''2024-01-02'')"
    unfolding s
    by (simp add: commit_def saveLogToHistory_def persistHistory_def handleDateSelection_def
        setItem_def getItem_def print_def Let_def sample_today getInitialLog_def
        initialState_def Array_sort_def)
  have c: "map_option (\<lambda>(st, w). localStorage w ''food-journal-log'')
     (startup sample_parse compare_strings sample_stringify_notes sample_stringify_history
        sample_clock ?w) = Some (Some ''log 2024-01-02 notes='')"
    unfolding s
    by (simp add: commit_def saveLogToHistory_def persistHistory_def handleDateSelection_def
        setItem_def getItem_def print_def Let_def sample_today getInitialLog_def
        initialState_def Array_sort_def)
  from a b c show ?thesis by blast
qed




section \<open>Folding the current record into the history\<close>

text \<open>
  Claim C2. After the save effect has run on a loaded component, the history is sorted
  descending by date key, holds the current record as its one record for that key, and holds
  beside it exactly the earlier records of other keys; when the keys were distinct before,
  they are distinct after. The order is the order of strings, with which \<open>localeCompare\<close>
  is taken to agree on the date keys at hand.
\<close>

theorem saveLogToHistory_sorted_unique:
  assumes loaded: "isLoaded st"
    and lc_less: "\<And>a b. a \<in> date ` insert (log st) (set (history st)) \<Longrightarrow>
                        b \<in> date ` insert (log st) (set (history st)) \<Longrightarrow>
                        (localeCompare a b < 0) = (a < b)"
    and lc_eq: "\<And>a b. a \<in> date ` insert (log st) (set (history st)) \<Longrightarrow>
                      b \<in> date ` insert (log st) (set (history st)) \<Longrightarrow>
                      (localeCompare a b = 0) = (a = b)"
  shows "sorted_wrt (\<lambda>a b. date b \<le> date a)
           (history (fst (saveLogToHistory localeCompare str now (st, w)))) \<and>
         (distinct (map date (history st)) \<longrightarrow>
            distinct (map date (history (fst (saveLogToHistory localeCompare str now (st, w)))))) \<and>
         set (history (fst (saveLogToHistory localeCompare str now (st, w)))) =
           insert (log st) {h \<in> set (history st). date h \<noteq> date (log st)} \<and>
         filter (\<lambda>h. date h = date (log st))
           (history (fst (saveLogToHistory localeCompare str now (st, w)))) = [log st]"
proof -
  let ?cmp = "\<lambda>(a::DailyLog) (b::DailyLog). localeCompare (date b) (date a)"
  let ?others = "filter (\<lambda>h. date h \<noteq> date (log st)) (history st)"
  let ?A = "insert (log st) (set (history st))"
  have h': "history (fst (saveLogToHistory localeCompare str now (st, w))) =
              Array_sort ?cmp (log st # ?others)"
    using loaded by (simp add: saveLogToHistory_def Let_def)
  have le: "\<And>(a::DailyLog) (b::DailyLog).
              a \<in> ?A \<Longrightarrow> b \<in> ?A \<Longrightarrow> (?cmp a b \<le> 0) = (date b \<le> date a)"
  proof -
    fix a b :: DailyLog
    assume "a \<in> ?A" and "b \<in> ?A"
    then have k: "date a \<in> date ` ?A" "date b \<in> date ` ?A" by blast+
    have "(localeCompare (date b) (date a) \<le> 0) =
            (localeCompare (date b) (date a) < 0 \<or> localeCompare (date b) (date a) = 0)"
      by auto
    also have "\<dots> = (date b < date a \<or> date b = date a)"
      using lc_less [OF k(2) k(1)] lc_eq [OF k(2) k(1)] by simp
    finally show "(?cmp a b \<le> 0) = (date b \<le> date a)"
      by (simp add: le_less)
  qed
  have sub: "set (log st # ?others) \<subseteq> ?A" by auto
  have s: "sorted_wrt (\<lambda>a b. date b \<le> date a) (Array_sort ?cmp (log st # ?others))"
    using sorted_Array_sort [of ?A ?cmp date "log st # ?others"] le sub by blast
  have d: "distinct (map date (history st)) \<longrightarrow>
             distinct (map date (Array_sort ?cmp (log st # ?others)))"
    by (auto simp add: distinct_map_Array_sort distinct_map_filter)
  have m: "set (Array_sort ?cmp (log st # ?others)) =
             insert (log st) {h \<in> set (history st). date h \<noteq> date (log st)}"
    by (auto simp add: set_Array_sort)
  have u: "filter (\<lambda>h. date h = date (log st)) (Array_sort ?cmp (log st # ?others)) = [log st]"
    by (rule filter_key_Array_sort) simp
  from s d m u show ?thesis by (simp only: h')
qed

text \<open>Editing the record of 2 January in a history of three days replaces that day's
  record in place.\<close>

theorem saveLogToHistory_sorted_unique_witness:
  "distinct (map date sample_history) \<and>
   history (fst (saveLogToHistory compare_strings sample_stringify_log sample_clock
      (loaded_state\<lparr>history := sample_history,
                     log := (getInitialLog ''2024-01-02'')\<lparr>notes := ''edited''\<rparr>\<rparr>,
       sample_store []))) =
     [getInitialLog ''2024-01-03'', (getInitialLog ''2024-01-02'')\<lparr>notes := ''edited''\<rparr>,
      getInitialLog ''2024-01-01''] \<and>
   sorted_wrt (\<lambda>a b. date b \<le> date a)
     (history (fst (saveLogToHistory compare_strings sample_stringify_log sample_clock
      (loaded_state\<lparr>history := sample_history,
                     log := (getInitialLog ''2024-01-02'')\<lparr>notes := ''edited''\<rparr>\<rparr>,
       sample_store [])))) \<and>
   distinct (map date
     (history (fst (saveLogToHistory compare_strings sample_stringify_log sample_clock
      (loaded_state\<lparr>history := sample_history,
                     log := (getInitialLog ''2024-01-02'')\<lparr>notes := ''edited''\<rparr>\<rparr>,
       sample_store [])))))"
proof -
  let ?st = "loaded_state\<lparr>history := sample_history,
                           log := (getInitialLog ''2024-01-02'')\<lparr>notes := ''edited''\<rparr>\<rparr>"
  have l: "isLoaded ?st" by simp
  have less: "\<And>a b. a \<in> date ` insert (log ?st) (set (history ?st)) \<Longrightarrow>
                     b \<in> date ` insert (log ?st) (set (history ?st)) \<Longrightarrow>
                     (compare_strings a b < 0) = (a < b)"
    by simp
  have eq: "\<And>a b. a \<in> date ` insert (log ?st) (set (history ?st)) \<Longrightarrow>
                   b \<in> date ` insert (log ?st) (set (history ?st)) \<Longrightarrow>
                   (compare_strings a b = 0) = (a = b)"
    by auto
  have d: "distinct (map date (history ?st))" by (simp add: getInitialLog_def)
  have h: "history (fst (saveLogToHistory compare_strings sample_stringify_log sample_clock
      (?st, sample_store []))) =
     [getInitialLog ''2024-01-03'', (getInitialLog ''2024-01-02'')\<lparr>notes := ''edited''\<rparr>,
      getInitialLog ''2024-01-01'']"
    by (simp add: saveLogToHistory_def Array_sort_def getInitialLog_def Let_def)
  from d h saveLogToHistory_sorted_unique [OF l less eq, of sample_stringify_log sample_clock
      "sample_store []"]
  show ?thesis by simp
qed

section \<open>Persisting the history\<close>

text \<open>
  Claim C3. On a loaded component, when the history in memory is empty and the history slot
  holds content (a text that is neither empty nor \<open>[]\<close>), the persist effect leaves the
  store as it is and prints a warning; when the history in memory is not empty, or the slot
  is absent, empty or \<open>[]\<close>, it overwrites the slot with the serialised history and leaves
  every other key alone. The component state is unchanged either way.
\<close>

theorem persistHistory_guard:
  assumes "isLoaded st"
  shows "(history st = [] \<and> localStorage w ''food-journal-history'' = Some raw \<and>
          raw \<noteq> '''' \<and> raw \<noteq> ''[]'' \<longrightarrow>
            localStorage (snd (persistHistory str (st, w))) = localStorage w \<and>
            console (snd (persistHistory str (st, w))) = console w @
              [(Warn, ''Journal: Blocked attempt to overwrite storage with empty state. History is SAFE.'')]) \<and>
         (history st \<noteq> [] \<or>
          localStorage w ''food-journal-history'' \<in> {None, Some '''', Some ''[]''} \<longrightarrow>
            localStorage (snd (persistHistory str (st, w))) =
              (localStorage w)(''food-journal-history'' \<mapsto> str (history st)) \<and>
            console (snd (persistHistory str (st, w))) = console w) \<and>
         fst (persistHistory str (st, w)) = st"
  using assms
  by (cases "localStorage w ''food-journal-history''")
     (auto simp add: persistHistory_def getItem_def setItem_def print_def Let_def)

text \<open>The guard scenario of the specification: an empty history in memory over a stored
  array of one record; then a history of three days over the same store; then an empty
  history over a stored \<open>[]\<close>.\<close>

theorem persistHistory_guard_witness:
  \<open>isLoaded loaded_state \<and> history loaded_state = [] \<and>
   localStorage (snd (persistHistory sample_stringify_history
       (loaded_state, sample_store [(''food-journal-history'', ''[{"date":"2024-01-01"}]'')])))
     ''food-journal-history'' = Some ''[{"date":"2024-01-01"}]'' \<and>
   localStorage (snd (persistHistory sample_stringify_history
       (loaded_state\<lparr>history := sample_history\<rparr>,
        sample_store [(''food-journal-history'', ''[{"date":"2024-01-01"}]'')])))
     ''food-journal-history'' = Some ''history 2024-01-03 2024-01-02 2024-01-01'' \<and>
   localStorage (snd (persistHistory sample_stringify_history
       (loaded_state, sample_store [(''food-journal-history'', ''[]'')])))
     ''food-journal-history'' = Some ''history''\<close>
proof -
  have l: "isLoaded loaded_state" "isLoaded (loaded_state\<lparr>history := sample_history\<rparr>)"
    by simp_all
  from persistHistory_guard [OF l(1), of
      \<open>sample_store [(''food-journal-history'', ''[{"date":"2024-01-01"}]'')]\<close>
      \<open>''[{"date":"2024-01-01"}]''\<close> sample_stringify_history]
    persistHistory_guard [OF l(2), of
      \<open>sample_store [(''food-journal-history'', ''[{"date":"2024-01-01"}]'')]\<close>
      \<open>''[{"date":"2024-01-01"}]''\<close> sample_stringify_history]
    persistHistory_guard [OF l(1), of
      \<open>sample_store [(''food-journal-history'', ''[]'')]\<close>
      \<open>''[]''\<close> sample_stringify_history]
  show ?thesis by (simp add: initialState_def getInitialLog_def)
qed

section \<open>The draft slot\<close>

text \<open>
  Claim C4, as the specification states it: after any sequence of mutations the draft slot
  holds a record if and only if the record mutated last has today's date key. The save
  effect writes the slot for a record of today and never removes it: after a mutation of
  today's record and then one of yesterday's, the slot still holds a record although the
  record mutated last is not today's.
\<close>

theorem draft_slot_not_cleared:
  "localStorage (snd (mutations compare_strings sample_stringify_log sample_stringify_history
      [((getInitialLog ''2024-01-02'')\<lparr>waterIntake := 1\<rparr>, sample_clock),
       ((getInitialLog ''2024-01-01'')\<lparr>waterIntake := 4\<rparr>, sample_clock)]
      (loaded_state, sample_store []))) ''food-journal-log'' \<noteq> None \<and>
   date ((getInitialLog ''2024-01-01'')\<lparr>waterIntake := 4\<rparr>) \<noteq> getLocalDateString sample_clock"
  by (simp add: mutations_def mutate_def saveLogToHistory_def persistHistory_def setItem_def
      getItem_def print_def Let_def sample_today getInitialLog_def initialState_def
      Array_sort_def)

text \<open>
  Claim C4, amended: after any sequence of mutations of a loaded component, the draft slot
  holds the serialisation of the last record in the sequence whose date key was the calendar
  date when it was mutated, and what it held before the sequence when there is no such
  record. So a record of another date is never written, a record that is written carries the
  date of the day of the write, and the slot is never emptied.
\<close>

theorem draft_slot_after_mutations:
  assumes "isLoaded st"
  shows "localStorage (snd (mutations lc strL strH ms (st, w))) ''food-journal-log'' =
           (case rev (filter (\<lambda>(r, now). date r = getLocalDateString now) ms) of
              [] \<Rightarrow> localStorage w ''food-journal-log''
            | (r, now) # _ \<Rightarrow> Some (strL r))"
proof (induction ms rule: rev_induct)
  case Nil
  show ?case by (simp add: mutations_def)
next
  case (snoc m ms)
  obtain r now where m: "m = (r, now)" by (cases m)
  obtain st' w' where s: "mutations lc strL strH ms (st, w) = (st', w')"
    by (cases "mutations lc strL strH ms (st, w)")
  have "isLoaded st'" using mutations_isLoaded [OF assms, of lc strL strH ms w] s by simp
  from mutate_draft [OF this, of lc strL strH r now w'] snoc s show ?case
    by (simp add: mutations_snoc m)
qed

theorem draft_slot_after_mutations_witness:
  "isLoaded loaded_state \<and>
   localStorage (snd (mutations compare_strings sample_stringify_log sample_stringify_history
      [((getInitialLog ''2024-01-02'')\<lparr>waterIntake := 1\<rparr>, sample_clock),
       ((getInitialLog ''2024-01-01'')\<lparr>waterIntake := 4\<rparr>, sample_clock)]
      (loaded_state, sample_store []))) ''food-journal-log'' = Some ''log 2024-01-02''"
proof -
  have l: "isLoaded loaded_state" by simp
  from l draft_slot_after_mutations [OF l, of compare_strings sample_stringify_log
      sample_stringify_history
      "[((getInitialLog ''2024-01-02'')\<lparr>waterIntake := 1\<rparr>, sample_clock),
        ((getInitialLog ''2024-01-01'')\<lparr>waterIntake := 4\<rparr>, sample_clock)]"
      "sample_store []"]
  show ?thesis by (simp add: sample_today getInitialLog_def)
qed

section \<open>The record factory\<close>

text \<open>
  Claim C5, as the specification states it: the factory returns a record whose scalar fields
  are at their defaults and whose sequence fields are all empty. The source fills
  \<open>fatEntries\<close> and \<open>vegetableEntries\<close> with two blank strings each, so the claim fails for
  these two sequence fields at every date key.
\<close>

theorem getInitialLog_sequences_not_all_empty:
  "\<not> (foodEntries (getInitialLog ''2024-01-01'') = [] \<and>
      miscEntries (getInitialLog ''2024-01-01'') = [] \<and>
      fatEntries (getInitialLog ''2024-01-01'') = [] \<and>
      vegetableEntries (getInitialLog ''2024-01-01'') = [] \<and>
      activities (getInitialLog ''2024-01-01'') = [] \<and>
      supplements (getInitialLog ''2024-01-01'') = Some [])"
  by (simp add: getInitialLog_def)

text \<open>
  Claim C5, amended: for every date key the factory returns a record carrying that key, with
  every scalar field at its default (empty strings, zero counters, false flags), with
  \<open>foodEntries\<close>, \<open>miscEntries\<close>, \<open>activities\<close> and \<open>supplements\<close> empty, and with
  \<open>fatEntries\<close> and \<open>vegetableEntries\<close> holding two empty strings each. The factory depends
  on the key alone: two calls return equal records exactly when their keys are equal.
\<close>

theorem getInitialLog_defaults:
  "date (getInitialLog d) = d \<and>
   proteinGoal (getInitialLog d) = '''' \<and>
   totalProteinCalories (getInitialLog d) = 0 \<and>
   ketosis (getInitialLog d) = False \<and>
   followedPlan (getInitialLog d) = False \<and>
   notes (getInitialLog d) = '''' \<and>
   waterIntake (getInitialLog d) = 0 \<and>
   foodEntries (getInitialLog d) = [] \<and>
   miscEntries (getInitialLog d) = [] \<and>
   activities (getInitialLog d) = [] \<and>
   supplements (getInitialLog d) = Some [] \<and>
   fatEntries (getInitialLog d) = ['''', ''''] \<and>
   vegetableEntries (getInitialLog d) = ['''', ''''] \<and>
   ((getInitialLog d = getInitialLog d') = (d = d'))"
  by (auto simp add: getInitialLog_def)

section \<open>Entries\<close>

text \<open>
  Claim C6. When the pending meal entry has a source and no time, \<open>savePendingEntry\<close>
  makes the meal entries one longer, with the earlier entries behind the new one; the new
  entry, at index 0, has the clock's hour and minute as its time, two digits each around a
  colon, the new id, and the source, serving, calories and the two hunger values of the
  pending entry; and the pending entry is back at its blank defaults.
\<close>

theorem savePendingEntry_adds:
  assumes "source (pendingEntry st) \<noteq> ''''" and "time (pendingEntry st) = ''''"
    and "getHours now < 24" and "getMinutes now < 60"
  shows "length (foodEntries (log (savePendingEntry newId now st))) =
           length (foodEntries (log st)) + 1 \<and>
         tl (foodEntries (log (savePendingEntry newId now st))) = foodEntries (log st) \<and>
         time (foodEntries (log (savePendingEntry newId now st)) ! 0) =
           [digit (getHours now div 10), digit (getHours now mod 10), CHR '':'',
            digit (getMinutes now div 10), digit (getMinutes now mod 10)] \<and>
         FoodEntry.id (foodEntries (log (savePendingEntry newId now st)) ! 0) = newId \<and>
         source (foodEntries (log (savePendingEntry newId now st)) ! 0) =
           source (pendingEntry st) \<and>
         serving (foodEntries (log (savePendingEntry newId now st)) ! 0) =
           serving (pendingEntry st) \<and>
         calories (foodEntries (log (savePendingEntry newId now st)) ! 0) =
           calories (pendingEntry st) \<and>
         hungerBefore (foodEntries (log (savePendingEntry newId now st)) ! 0) =
           hungerBefore (pendingEntry st) \<and>
         hungerAfter (foodEntries (log (savePendingEntry newId now st)) ! 0) =
           hungerAfter (pendingEntry st) \<and>
         pendingEntry (savePendingEntry newId now st) =
           \<lparr> FoodEntry.id = ''pending'', source = '''', time = '''', serving = '''',
             calories = 0, hungerBefore = 5, hungerAfter = 5 \<rparr>"
  using assms by (simp add: savePendingEntry_def Let_def clock_format)

text \<open>The end-to-end scenario of the specification, at 09:05: eggs, 140 calories, hunger 6
  before and 3 after, no time given.\<close>

theorem savePendingEntry_adds_witness:
  "foodEntries (log (savePendingEntry ''k3j9x0q2a'' sample_clock
      ((initialState sample_clock)
         \<lparr>pendingEntry := \<lparr> FoodEntry.id = ''pending'', source = ''Eggs'', time = '''',
                            serving = '''', calories = 140, hungerBefore = 6,
                            hungerAfter = 3 \<rparr>\<rparr>))) =
     [\<lparr> FoodEntry.id = ''k3j9x0q2a'', source = ''Eggs'', time = ''09:05'', serving = '''',
        calories = 140, hungerBefore = 6, hungerAfter = 3 \<rparr>] \<and>
   pendingEntry (savePendingEntry ''k3j9x0q2a'' sample_clock
      ((initialState sample_clock)
         \<lparr>pendingEntry := \<lparr> FoodEntry.id = ''pending'', source = ''Eggs'', time = '''',
                            serving = '''', calories = 140, hungerBefore = 6,
                            hungerAfter = 3 \<rparr>\<rparr>)) =
     pendingEntry (initialState sample_clock)"
proof -
  let ?st = "(initialState sample_clock)
         \<lparr>pendingEntry := \<lparr> FoodEntry.id = ''pending'', source = ''Eggs'', time = '''',
                            serving = '''', calories = 140, hungerBefore = 6,
                            hungerAfter = 3 \<rparr>\<rparr>"
  have h: "source (pendingEntry ?st) \<noteq> ''''" "time (pendingEntry ?st) = ''''"
    "getHours sample_clock < 24" "getMinutes sample_clock < 60"
    by simp_all
  have e: "foodEntries (log ?st) = []" by (simp add: initialState_def getInitialLog_def)
  from e savePendingEntry_adds [OF h, of "''k3j9x0q2a''"]
  show ?thesis
    by (simp add: savePendingEntry_def Let_def sample_time initialState_def)
qed

text \<open>
  Claim C7. A click on water pip \<open>i\<close> sets \<open>waterIntake\<close> to \<open>i\<close> when it was \<open>i + 1\<close> and
  to \<open>i + 1\<close> otherwise; from a count of 3, pip 2 gives 2 and pip 5 gives 6.
\<close>

theorem clickWaterPip_toggle:
  "waterIntake (log (clickWaterPip i st)) =
     (if waterIntake (log st) = int i + 1 then int i else int i + 1) \<and>
   (waterIntake (log st) = 3 \<longrightarrow>
      waterIntake (log (clickWaterPip 2 st)) = 2 \<and>
      waterIntake (log (clickWaterPip 5 st)) = 6)"
  by (auto simp add: clickWaterPip_def)

theorem clickWaterPip_toggle_witness:
  "waterIntake (log (loaded_state\<lparr>log := (getInitialLog ''2024-01-02'')\<lparr>waterIntake := 3\<rparr>\<rparr>)) = 3 \<and>
   waterIntake (log (clickWaterPip 2
     (loaded_state\<lparr>log := (getInitialLog ''2024-01-02'')\<lparr>waterIntake := 3\<rparr>\<rparr>))) = 2 \<and>
   waterIntake (log (clickWaterPip 5
     (loaded_state\<lparr>log := (getInitialLog ''2024-01-02'')\<lparr>waterIntake := 3\<rparr>\<rparr>))) = 6"
proof -
  have h: "waterIntake (log (loaded_state\<lparr>log := (getInitialLog ''2024-01-02'')
             \<lparr>waterIntake := 3\<rparr>\<rparr>)) = 3"
    by simp
  from h clickWaterPip_toggle [of 0 "loaded_state\<lparr>log := (getInitialLog ''2024-01-02'')
             \<lparr>waterIntake := 3\<rparr>\<rparr>"]
  show ?thesis by simp
qed

text \<open>
  Claim C8. Adding an entry whose label is empty (the source of a meal or miscellaneous
  entry, the type of an activity) returns the state it was given: the entry sequence, the
  pending entry and everything else are as before, and the operation has no other result.
\<close>

theorem savePending_empty_label_noop:
  "(source (pendingEntry st) = '''' \<longrightarrow> savePendingEntry newId now st = st) \<and>
   (source (pendingMisc st) = '''' \<longrightarrow> savePendingMisc newId now st = st) \<and>
   (type (pendingActivity st) = '''' \<longrightarrow> savePendingActivity newId st = st)"
  by (simp add: savePendingEntry_def savePendingMisc_def savePendingActivity_def)

theorem savePending_empty_label_noop_witness:
  "source (pendingEntry (initialState sample_clock)) = '''' \<and>
   source (pendingMisc (initialState sample_clock)) = '''' \<and>
   type (pendingActivity (initialState sample_clock)) = '''' \<and>
   savePendingEntry ''k3j9x0q2a'' sample_clock (initialState sample_clock) =
     initialState sample_clock \<and>
   savePendingMisc ''k3j9x0q2a'' sample_clock (initialState sample_clock) =
     initialState sample_clock \<and>
   savePendingActivity ''k3j9x0q2a'' (initialState sample_clock) = initialState sample_clock"
proof -
  have h: "source (pendingEntry (initialState sample_clock)) = ''''"
    "source (pendingMisc (initialState sample_clock)) = ''''"
    "type (pendingActivity (initialState sample_clock)) = ''''"
    by (simp_all add: initialState_def)
  from h savePending_empty_label_noop [of "initialState sample_clock" "''k3j9x0q2a''"
      sample_clock]
  show ?thesis by simp
qed

text \<open>
  Claim C10. Each of the six entry operations leaves the current record as it was except
  for the one sequence it targets: the record after the operation is the record before it
  with that sequence replaced, so the date, the scalar fields and the other sequences are
  the same.
\<close>

theorem entry_operations_frame:
  "log (savePendingEntry newId now st) =
     (log st)\<lparr>foodEntries := foodEntries (log (savePendingEntry newId now st))\<rparr> \<and>
   log (removeFoodEntry i st) =
     (log st)\<lparr>foodEntries := foodEntries (log (removeFoodEntry i st))\<rparr> \<and>
   log (savePendingMisc newId now st) =
     (log st)\<lparr>miscEntries := miscEntries (log (savePendingMisc newId now st))\<rparr> \<and>
   log (removeMiscEntry i st) =
     (log st)\<lparr>miscEntries := miscEntries (log (removeMiscEntry i st))\<rparr> \<and>
   log (savePendingActivity newId st) =
     (log st)\<lparr>activities := activities (log (savePendingActivity newId st))\<rparr> \<and>
   log (removeActivity i st) =
     (log st)\<lparr>activities := activities (log (removeActivity i st))\<rparr>"
  by (simp add: savePendingEntry_def removeFoodEntry_def savePendingMisc_def
      removeMiscEntry_def savePendingActivity_def removeActivity_def Let_def)

end
